theory Spec2Isabelle
  imports Complex_Main "HOL-Library.Char_ord" "HOL-Library.List_Lexorder" "HOL-Library.Multiset"
begin

section \<open>The store: two tables and the console\<close>

text \<open>
  \<^verbatim>\<open>inventory_system.py\<close> keeps its data in two SQLite tables, \<^verbatim>\<open>products\<close> and
  \<^verbatim>\<open>transactions\<close>, both with an \<^verbatim>\<open>INTEGER PRIMARY KEY AUTOINCREMENT\<close> id.
  A table is modelled as the list of its rows in rowid order, which is the order of a
  table scan. Text is a byte string compared bytewise, as SQLite's default collation
  does. The clock (\<^verbatim>\<open>datetime.datetime.now().isoformat()\<close>) is an argument of every
  function that reads it, one argument per reading. What \<^verbatim>\<open>print\<close> writes is kept
  as a list of lines. The foreign key of \<^verbatim>\<open>transactions.product_id\<close> is declared but
  never enforced, since the program does not switch \<^verbatim>\<open>PRAGMA foreign_keys\<close> on.

  A Python integer is unbounded; an SQLite integer has 64 bits, and the \<^verbatim>\<open>sqlite3\<close>
  module raises \<^verbatim>\<open>OverflowError\<close> when it is given a Python integer outside that
  range as a parameter of a statement.
\<close>

definition int64 :: "int \<Rightarrow> bool" where
  "int64 i \<longleftrightarrow> - (2 ^ 63) \<le> i \<and> i < 2 ^ 63"

text \<open>
  A Python float is a finite double, given by its exact value, an infinity or a NaN.
  Nothing here computes with floats: they are stored and handed back. SQLite stores a
  NaN as \<^verbatim>\<open>NULL\<close>.
\<close>

datatype pyfloat = Float rat | PosInf | NegInf | NaN

text \<open>
  The exceptions that the statements of the program can raise, and the text that
  \<^verbatim>\<open>str\<close> gives for each.
\<close>

datatype exn = OverflowError | IntegrityError | OperationalError | TypeError

fun str :: "exn \<Rightarrow> string" where
  "str OverflowError = ''Python int too large to convert to SQLite INTEGER''"
| "str IntegrityError = ''NOT NULL constraint failed: products.price''"
| "str OperationalError = ''database or disk is full''"
| "str TypeError = [CHR 0x27] @ ''NoneType'' @ [CHR 0x27] @ '' object is not subscriptable''"

record product_row =
  p_id :: int
  p_name :: string
  p_description :: string
  p_category :: string
  p_price :: pyfloat
  p_quantity :: int
  p_min_stock :: int
  p_supplier :: string
  p_created_date :: string
  p_last_updated :: string

text \<open>The price of a transaction may be \<^verbatim>\<open>NULL\<close>, the other columns never are.\<close>

record transaction_row =
  t_id :: int
  t_product_id :: int
  t_transaction_type :: string
  t_quantity :: int
  t_price :: "pyfloat option"
  t_date :: string
  t_notes :: string

record state =
  products :: "product_row list"
  transactions :: "transaction_row list"
  products_seq :: int
  transactions_seq :: int
  stdout :: "string list"

text \<open>\<^verbatim>\<open>init_database\<close>: both tables are created empty.\<close>

definition init_database :: state where
  "init_database =
     \<lparr>products = [], transactions = [], products_seq = 0, transactions_seq = 0, stdout = []\<rparr>"

text \<open>
  The rowid of an inserted row under \<^verbatim>\<open>AUTOINCREMENT\<close>: one more than the largest rowid
  in the table (1 for an empty table), and at least one more than the largest rowid the
  table ever had, which SQLite keeps in \<^verbatim>\<open>sqlite_sequence\<close>. When no 64-bit rowid is
  left the statement fails with \<^verbatim>\<open>SQLITE_FULL\<close>, which \<^verbatim>\<open>sqlite3\<close> raises as an
  \<^verbatim>\<open>OperationalError\<close>.
\<close>

definition next_rowid :: "int \<Rightarrow> int list \<Rightarrow> int" where
  "next_rowid seq ids = max (if ids = [] then 1 else Max (set ids) + 1) (seq + 1)"

definition new_rowid :: "int \<Rightarrow> int list \<Rightarrow> exn + int" where
  "new_rowid seq ids =
     (if next_rowid seq ids < 2 ^ 63 then Inr (next_rowid seq ids) else Inl OperationalError)"

definition print :: "string \<Rightarrow> state \<Rightarrow> state" where
  "print line s = s\<lparr>stdout := stdout s @ [line]\<rparr>"

section \<open>class Product\<close>

record product =
  name :: string
  description :: string
  category :: string
  price :: pyfloat
  quantity :: int
  min_stock :: int
  supplier :: string
  created_date :: string
  last_updated :: string

text \<open>
  \<^verbatim>\<open>Product.__init__(name, price, quantity, description, category, min_stock, supplier)\<close>
  reads the clock twice.
\<close>

definition Product ::
  "string \<Rightarrow> string \<Rightarrow> string \<Rightarrow> pyfloat \<Rightarrow> int \<Rightarrow> string \<Rightarrow> string \<Rightarrow> int \<Rightarrow> string
     \<Rightarrow> product" where
  "Product now1 now2 nm pr qty descr cat ms suppl =
     \<lparr>name = nm, description = descr, category = cat, price = pr, quantity = qty,
      min_stock = ms, supplier = suppl, created_date = now1, last_updated = now2\<rparr>"

section \<open>class InventoryManager\<close>

subsection \<open>Lookups\<close>

text \<open>
  \<^verbatim>\<open>results[0] if results else None\<close> over \<^verbatim>\<open>SELECT * FROM products WHERE id = ?\<close>.
  The id is a parameter of the statement, so an id outside the 64-bit range raises.
\<close>

definition get_product_by_id :: "state \<Rightarrow> int \<Rightarrow> exn + product_row option" where
  "get_product_by_id s product_id =
     (if int64 product_id
      then Inr (case filter (\<lambda>r. p_id r = product_id) (products s) of
                  [] \<Rightarrow> None
                | r # _ \<Rightarrow> Some r)
      else Inl OverflowError)"

definition get_product_by_name :: "state \<Rightarrow> string \<Rightarrow> product_row option" where
  "get_product_by_name s nm =
     (case filter (\<lambda>r. p_name r = nm) (products s) of
        [] \<Rightarrow> None
      | r # _ \<Rightarrow> Some r)"

text \<open>\<^verbatim>\<open>SELECT * FROM products WHERE quantity <= min_stock\<close>.\<close>

definition get_low_stock_products :: "state \<Rightarrow> product_row list" where
  "get_low_stock_products s = filter (\<lambda>r. p_quantity r \<le> p_min_stock r) (products s)"

subsection \<open>The ledger\<close>

text \<open>
  \<^verbatim>\<open>_log_transaction\<close>: one \<^verbatim>\<open>INSERT INTO transactions\<close>, dated by the clock. The
  product id and the quantity are integer parameters; the method has no \<^verbatim>\<open>try\<close>, so
  what the statement raises reaches the caller.
\<close>

definition log_transaction ::
  "state \<Rightarrow> string \<Rightarrow> int \<Rightarrow> string \<Rightarrow> int \<Rightarrow> pyfloat \<Rightarrow> string \<Rightarrow> exn + state" where
  "log_transaction s now product_id transaction_type qty pr notes =
     (if \<not> (int64 product_id \<and> int64 qty) then Inl OverflowError
      else case new_rowid (transactions_seq s) (map t_id (transactions s)) of
             Inl e \<Rightarrow> Inl e
           | Inr i \<Rightarrow>
               Inr (s\<lparr>transactions := transactions s @
                         [\<lparr>t_id = i, t_product_id = product_id,
                           t_transaction_type = transaction_type, t_quantity = qty,
                           t_price = (if pr = NaN then None else Some pr),
                           t_date = now, t_notes = notes\<rparr>],
                       transactions_seq := i\<rparr>))"

subsection \<open>add\_product\<close>

text \<open>
  The \<^verbatim>\<open>INSERT\<close> is not guarded by any lookup, and the table has no uniqueness
  constraint on \<^verbatim>\<open>name\<close>. It fails when the quantity or the minimum stock is outside
  the 64-bit range, when no rowid is left, and when the price is a NaN, which
  \<^verbatim>\<open>price REAL NOT NULL\<close> refuses.
\<close>

definition insert_product :: "state \<Rightarrow> product \<Rightarrow> exn + state" where
  "insert_product s p =
     (if \<not> (int64 (quantity p) \<and> int64 (min_stock p)) then Inl OverflowError
      else case new_rowid (products_seq s) (map p_id (products s)) of
             Inl e \<Rightarrow> Inl e
           | Inr i \<Rightarrow>
               if price p = NaN then Inl IntegrityError
               else Inr (s\<lparr>products := products s @
                              [\<lparr>p_id = i, p_name = name p, p_description = description p,
                                p_category = category p, p_price = price p,
                                p_quantity = quantity p, p_min_stock = min_stock p,
                                p_supplier = supplier p, p_created_date = created_date p,
                                p_last_updated = last_updated p\<rparr>],
                            products_seq := i\<rparr>))"

text \<open>
  After the insert the initial-stock entry is logged against the first row that carries
  the name. Every exception of the body is caught, printed and turned into
  \<^verbatim>\<open>False\<close>; a row that was inserted before the exception stays.
\<close>

definition add_product :: "state \<Rightarrow> string \<Rightarrow> product \<Rightarrow> bool \<times> state" where
  "add_product s now p =
     (case insert_product s p of
        Inl e \<Rightarrow> (False, print (''Error adding product: '' @ str e) s)
      | Inr s1 \<Rightarrow>
          (case get_product_by_name s1 (name p) of
             None \<Rightarrow> (False, print (''Error adding product: '' @ str TypeError) s1)
           | Some r \<Rightarrow>
               (case log_transaction s1 now (p_id r) ''INITIAL_STOCK'' (quantity p) (price p)
                       (''Initial stock for '' @ name p) of
                  Inl e \<Rightarrow> (False, print (''Error adding product: '' @ str e) s1)
                | Inr s2 \<Rightarrow> (True, s2))))"

subsection \<open>update\_product\<close>

text \<open>
  A keyword argument of \<^verbatim>\<open>update_product\<close> is a column name with a value of the
  column's type; \<open>Other k\<close> is a keyword \<open>k\<close> that names no column. The keyword
  arguments of a call are a dictionary, so their names are distinct.
\<close>

datatype kwarg =
    Name string
  | Description string
  | Category string
  | Price pyfloat
  | Quantity int
  | Min_stock int
  | Supplier string
  | Other string

fun field :: "kwarg \<Rightarrow> string" where
  "field (Name _) = ''name''"
| "field (Description _) = ''description''"
| "field (Category _) = ''category''"
| "field (Price _) = ''price''"
| "field (Quantity _) = ''quantity''"
| "field (Min_stock _) = ''min_stock''"
| "field (Supplier _) = ''supplier''"
| "field (Other k) = k"

definition valid_fields :: "string list" where
  "valid_fields =
     [''name'', ''description'', ''category'', ''price'', ''quantity'', ''min_stock'',
      ''supplier'']"

text \<open>One assignment \<^verbatim>\<open>field = ?\<close> of the \<^verbatim>\<open>SET\<close> clause.\<close>

fun assign :: "kwarg \<Rightarrow> product_row \<Rightarrow> product_row" where
  "assign (Name v) r = r\<lparr>p_name := v\<rparr>"
| "assign (Description v) r = r\<lparr>p_description := v\<rparr>"
| "assign (Category v) r = r\<lparr>p_category := v\<rparr>"
| "assign (Price v) r = r\<lparr>p_price := v\<rparr>"
| "assign (Quantity v) r = r\<lparr>p_quantity := v\<rparr>"
| "assign (Min_stock v) r = r\<lparr>p_min_stock := v\<rparr>"
| "assign (Supplier v) r = r\<lparr>p_supplier := v\<rparr>"
| "assign (Other k) r = r"

text \<open>Whether the value of a keyword argument can be a parameter of the statement.\<close>

fun bindable :: "kwarg \<Rightarrow> bool" where
  "bindable (Quantity v) = int64 v"
| "bindable (Min_stock v) = int64 v"
| "bindable _ = True"

text \<open>
  The loop keeps the keyword arguments whose name is in \<^verbatim>\<open>valid_fields\<close>; with none
  left the method returns \<^verbatim>\<open>False\<close>. Otherwise it runs
  \<^verbatim>\<open>UPDATE products SET ..., last_updated = ? WHERE id = ?\<close> and returns \<^verbatim>\<open>True\<close>
  without looking at the number of rows changed. The statement raises when a value or
  the id is outside the 64-bit range, and when it would set the price of a row to
  \<^verbatim>\<open>NULL\<close>; the method catches that, prints it and returns \<^verbatim>\<open>False\<close>, and no row
  has changed.
\<close>

definition update_product :: "state \<Rightarrow> string \<Rightarrow> int \<Rightarrow> kwarg list \<Rightarrow> bool \<times> state" where
  "update_product s now product_id kwargs =
     (let updates = filter (\<lambda>k. field k \<in> set valid_fields) kwargs
      in if updates = [] then (False, s)
         else if \<not> (list_all bindable updates \<and> int64 product_id)
         then (False, print (''Error updating product: '' @ str OverflowError) s)
         else if Price NaN \<in> set updates \<and> filter (\<lambda>r. p_id r = product_id) (products s) \<noteq> []
         then (False, print (''Error updating product: '' @ str IntegrityError) s)
         else (True,
               s\<lparr>products :=
                    map (\<lambda>r. if p_id r = product_id
                              then (fold assign updates r)\<lparr>p_last_updated := now\<rparr>
                              else r)
                        (products s)\<rparr>))"

subsection \<open>delete\_product\<close>

text \<open>
  \<^verbatim>\<open>DELETE FROM products WHERE id = ?\<close>; the transactions table is not touched. An id
  outside the 64-bit range raises, which the method catches, prints and turns into
  \<^verbatim>\<open>False\<close>.
\<close>

definition delete_product :: "state \<Rightarrow> int \<Rightarrow> bool \<times> state" where
  "delete_product s product_id =
     (if int64 product_id
      then (True, s\<lparr>products := filter (\<lambda>r. p_id r \<noteq> product_id) (products s)\<rparr>)
      else (False, print (''Error deleting product: '' @ str OverflowError) s))"

subsection \<open>add\_stock and remove\_stock\<close>


definition remove_stock ::
  "state \<Rightarrow> string \<Rightarrow> string \<Rightarrow> int \<Rightarrow> int \<Rightarrow> pyfloat \<Rightarrow> string \<Rightarrow> bool \<times> state" where
  "remove_stock s now_update now_log product_id qty pr notes =
     (case get_product_by_id s product_id of
        Inl e \<Rightarrow> (False, print (''Error removing stock: '' @ str e) s)
      | Inr None \<Rightarrow> (False, s)
      | Inr (Some product) \<Rightarrow>
          if p_quantity product < qty
          then (False, print ''Insufficient stock available!'' s)
          else
            (let new_quantity = p_quantity product - qty;
                 s1 = snd (update_product s now_update product_id [Quantity new_quantity])
             in case log_transaction s1 now_log product_id ''STOCK_OUT'' qty pr notes of
                  Inl e \<Rightarrow> (False, print (''Error removing stock: '' @ str e) s1)
                | Inr s2 \<Rightarrow> (True, s2)))"

subsection \<open>get\_transaction\_history\<close>

text \<open>
  \<^verbatim>\<open>FROM transactions t JOIN products p ON t.product_id = p.id\<close>: an inner join, one
  result row per pair of a transaction and a product with that id.
\<close>

definition join_products :: "state \<Rightarrow> (transaction_row \<times> string) list" where
  "join_products s =
     concat (map (\<lambda>t. map (\<lambda>p. (t, p_name p))
                          (filter (\<lambda>p. p_id p = t_product_id t) (products s)))
                 (transactions s))"

text \<open>\<^verbatim>\<open>ORDER BY t.date DESC\<close>; rows of equal date stay in scan order.\<close>

definition order_by_date_desc ::
  "(transaction_row \<times> string) list \<Rightarrow> (transaction_row \<times> string) list" where
  "order_by_date_desc rows = rev (sort_key (\<lambda>row. t_date (fst row)) (rev rows))"

text \<open>
  \<^verbatim>\<open>if product_id:\<close> is Python's truth test: \<^verbatim>\<open>None\<close> and \<^verbatim>\<open>0\<close> are both false.
\<close>

definition truthy :: "int option \<Rightarrow> bool" where
  "truthy product_id = (case product_id of None \<Rightarrow> False | Some i \<Rightarrow> i \<noteq> 0)"

text \<open>
  The method has no \<^verbatim>\<open>try\<close>: for an id outside the 64-bit range the filtered query
  raises to the caller.
\<close>

definition get_transaction_history ::
  "state \<Rightarrow> int option \<Rightarrow> exn + (transaction_row \<times> string) list" where
  "get_transaction_history s product_id =
     (if truthy product_id
      then if int64 (the product_id)
           then Inr (order_by_date_desc
                       (filter (\<lambda>row. Some (t_product_id (fst row)) = product_id)
                          (join_products s)))
           else Inl OverflowError
      else Inr (order_by_date_desc (join_products s)))"

section \<open>Sample data\<close>

text \<open>
  Two of the products of \<^verbatim>\<open>add_sample_data\<close>, a product entered with a negative
  quantity, and the stores they are added to.
\<close>

definition laptop :: product where
  "laptop = Product ''2024-05-01T09:00:00'' ''2024-05-01T09:00:00''
              ''Laptop'' (Float (99999 / 100)) 15 ''Gaming laptop'' ''Electronics'' 5
              ''TechCorp''"

definition notebook :: product where
  "notebook = Product ''2024-05-01T09:00:02'' ''2024-05-01T09:00:02''
                ''Notebook'' (Float (399 / 100)) 2 ''A4 notebook'' ''Stationery'' 10
                ''PaperCorp''"

definition crate :: product where
  "crate = Product ''2024-05-01T09:00:00'' ''2024-05-01T09:00:00''
             ''Crate'' (Float 4) (- 5) [] ''Packing'' 10 []"

definition laptop_store :: state where
  "laptop_store = snd (add_product init_database ''2024-05-01T09:00:01'' laptop)"

definition sample_store :: state where
  "sample_store = snd (add_product laptop_store ''2024-05-01T09:00:03'' notebook)"

definition crate_store :: state where
  "crate_store = snd (add_product init_database ''2024-05-01T09:00:01'' crate)"

section \<open>Facts about the store\<close>

subsection \<open>The sample stores, evaluated\<close>

lemmas eval_defs = laptop_store_def sample_store_def crate_store_def laptop_def notebook_def
  crate_def Product_def add_product_def insert_product_def init_database_def next_rowid_def
  new_rowid_def get_product_by_name_def log_transaction_def int64_def

lemma laptop_store_eq:
  "laptop_store =
     \<lparr>products =
        [\<lparr>p_id = 1, p_name = ''Laptop'', p_description = ''Gaming laptop'',
          p_category = ''Electronics'', p_price = Float (99999 / 100), p_quantity = 15,
          p_min_stock = 5, p_supplier = ''TechCorp'',
          p_created_date = ''2024-05-01T09:00:00'',
          p_last_updated = ''2024-05-01T09:00:00''\<rparr>],
      transactions =
        [\<lparr>t_id = 1, t_product_id = 1, t_transaction_type = ''INITIAL_STOCK'',
          t_quantity = 15, t_price = Some (Float (99999 / 100)),
          t_date = ''2024-05-01T09:00:01'', t_notes = ''Initial stock for Laptop''\<rparr>],
      products_seq = 1, transactions_seq = 1, stdout = []\<rparr>"
  by (simp add: eval_defs)

lemma sample_store_eq:
  "sample_store =
     \<lparr>products =
        [\<lparr>p_id = 1, p_name = ''Laptop'', p_description = ''Gaming laptop'',
          p_category = ''Electronics'', p_price = Float (99999 / 100), p_quantity = 15,
          p_min_stock = 5, p_supplier = ''TechCorp'',
          p_created_date = ''2024-05-01T09:00:00'',
          p_last_updated = ''2024-05-01T09:00:00''\<rparr>,
         \<lparr>p_id = 2, p_name = ''Notebook'', p_description = ''A4 notebook'',
          p_category = ''Stationery'', p_price = Float (399 / 100), p_quantity = 2,
          p_min_stock = 10, p_supplier = ''PaperCorp'',
          p_created_date = ''2024-05-01T09:00:02'',
          p_last_updated = ''2024-05-01T09:00:02''\<rparr>],
      transactions =
        [\<lparr>t_id = 1, t_product_id = 1, t_transaction_type = ''INITIAL_STOCK'',
          t_quantity = 15, t_price = Some (Float (99999 / 100)),
          t_date = ''2024-05-01T09:00:01'', t_notes = ''Initial stock for Laptop''\<rparr>,
         \<lparr>t_id = 2, t_product_id = 2, t_transaction_type = ''INITIAL_STOCK'',
          t_quantity = 2, t_price = Some (Float (399 / 100)),
          t_date = ''2024-05-01T09:00:03'', t_notes = ''Initial stock for Notebook''\<rparr>],
      products_seq = 2, transactions_seq = 2, stdout = []\<rparr>"
  by (simp add: eval_defs)


subsection \<open>Rowids\<close>



subsection \<open>Looking a product up\<close>


lemma get_product_by_id_cong:
  "products s' = products s \<Longrightarrow> get_product_by_id s' i = get_product_by_id s i"
  by (simp add: get_product_by_id_def)





subsection \<open>Logging a transaction\<close>


subsection \<open>Updating a product\<close>










subsection \<open>Stock movements on an existing product\<close>



subsection \<open>The joined history\<close>

lemma set_order_by_date_desc [simp]: "set (order_by_date_desc rows) = set rows"
  by (simp add: order_by_date_desc_def)

lemma mset_order_by_date_desc [simp]: "mset (order_by_date_desc rows) = mset rows"
  by (simp add: order_by_date_desc_def)

lemma sorted_order_by_date_desc:
  "sorted (rev (map (\<lambda>row. t_date (fst row)) (order_by_date_desc rows)))"
  by (simp add: order_by_date_desc_def rev_map)

lemma set_join_products:
  "set (join_products s) =
     {(t, p_name p) | t p.
        t \<in> set (transactions s) \<and> p \<in> set (products s) \<and> p_id p = t_product_id t}"
  by (auto simp: join_products_def)

lemma filter_distinct_key:
  "distinct (map f xs) \<Longrightarrow>
   map (\<lambda>x. c) (filter (\<lambda>x. f x = k) xs) = (if k \<in> f ` set xs then [c] else [])"
  by (induction xs) auto

lemma map_fst_join_products:
  assumes "distinct (map p_id (products s))"
  shows "map fst (join_products s) =
           filter (\<lambda>t. t_product_id t \<in> p_id ` set (products s)) (transactions s)"
proof -
  have one: "map fst (map (\<lambda>p. (t, p_name p))
                        (filter (\<lambda>p. p_id p = t_product_id t) (products s))) =
             (if t_product_id t \<in> p_id ` set (products s) then [t] else [])"
    for t :: transaction_row
    using filter_distinct_key [OF assms, of t "t_product_id t"] by (simp add: comp_def)
  have "map fst (concat (map (\<lambda>t. map (\<lambda>p. (t, p_name p))
                                      (filter (\<lambda>p. p_id p = t_product_id t) (products s))) ts)) =
        filter (\<lambda>t. t_product_id t \<in> p_id ` set (products s)) ts"
    for ts :: "transaction_row list"
    by (induction ts) (simp_all add: one del: map_map)
  then show ?thesis
    by (simp add: join_products_def)
qed

section \<open>Adding a product\<close>




section \<open>Stock movements\<close>




text \<open>
  C6. For an existing product with a quantity below the quantity to remove,
  \<^verbatim>\<open>remove_stock\<close> fails: it returns \<^verbatim>\<open>False\<close> after printing
  \<^verbatim>\<open>Insufficient stock available!\<close>, and neither the products table (so the quantity)
  nor the transactions table changes.
\<close>

theorem remove_stock_insufficient:
  assumes "get_product_by_id s product_id = Inr (Some p)" and "p_quantity p < delta"
  shows "fst (remove_stock s u l product_id delta pr notes) = False \<and>
         products (snd (remove_stock s u l product_id delta pr notes)) = products s \<and>
         transactions (snd (remove_stock s u l product_id delta pr notes)) = transactions s \<and>
         stdout (snd (remove_stock s u l product_id delta pr notes)) =
           stdout s @ [''Insufficient stock available!'']"
proof -
  from assms have "remove_stock s u l product_id delta pr notes =
                     (False, print ''Insufficient stock available!'' s)"
    by (simp add: remove_stock_def)
  then show ?thesis
    by (simp add: print_def)
qed

text \<open>The theorem at the laptop store: twenty laptops asked of fifteen.\<close>

theorem remove_stock_insufficient_witness:
  "fst (remove_stock laptop_store ''u'' ''l'' 1 20 (Float 0) []) = False \<and>
   products (snd (remove_stock laptop_store ''u'' ''l'' 1 20 (Float 0) [])) =
     products laptop_store \<and>
   transactions (snd (remove_stock laptop_store ''u'' ''l'' 1 20 (Float 0) [])) =
     transactions laptop_store \<and>
   stdout (snd (remove_stock laptop_store ''u'' ''l'' 1 20 (Float 0) [])) =
     [''Insufficient stock available!'']"
  using remove_stock_insufficient
          [of laptop_store 1 "hd (products laptop_store)" 20 "''u''" "''l''" "Float 0" "[]"]
  by (simp add: laptop_store_eq get_product_by_id_def int64_def)




section \<open>Updating a product\<close>







section \<open>Deleting a product and the transaction history\<close>

text \<open>
  C5, as the code has it. \<^verbatim>\<open>delete_product\<close> never changes the transactions table.
  For a 64-bit product id it returns \<^verbatim>\<open>True\<close> and removes the rows of the products
  table with that id, and the history that \<^verbatim>\<open>get_transaction_history()\<close> then returns
  holds no transaction of the deleted product: the query joins each transaction with
  its product, and a transaction whose product is gone has none.
\<close>

theorem delete_product_orphans:
  "transactions (snd (delete_product s product_id)) = transactions s \<and>
   (int64 product_id \<longrightarrow>
      fst (delete_product s product_id) \<and>
      products (snd (delete_product s product_id)) =
        filter (\<lambda>r. p_id r \<noteq> product_id) (products s) \<and>
      (\<exists>rows. get_transaction_history (snd (delete_product s product_id)) None = Inr rows \<and>
              filter (\<lambda>row. t_product_id (fst row) = product_id) rows = []))"
proof -
  let ?s' = "snd (delete_product s product_id)"
  have gone: "filter (\<lambda>row. t_product_id (fst row) = product_id)
                (order_by_date_desc (join_products ?s')) = []"
    if i: "int64 product_id"
  proof -
    have "t_product_id (fst row) \<noteq> product_id" if "row \<in> set (join_products ?s')" for row
      using that i by (auto simp: set_join_products delete_product_def)
    then show ?thesis
      by (simp add: filter_empty_conv)
  qed
  have "transactions ?s' = transactions s"
    by (simp add: delete_product_def print_def)
  with gone show ?thesis
    by (simp add: delete_product_def get_transaction_history_def truthy_def)
qed

text \<open>
  The theorem at the sample store: with the notebook deleted, the laptop and both
  ledger entries stay, and the history holds the laptop's entry alone.
\<close>

theorem delete_product_orphans_witness:
  "fst (delete_product sample_store 2) \<and>
   map p_name (products (snd (delete_product sample_store 2))) = [''Laptop''] \<and>
   map t_id (transactions (snd (delete_product sample_store 2))) = [1, 2] \<and>
   (\<exists>rows. get_transaction_history (snd (delete_product sample_store 2)) None = Inr rows \<and>
           filter (\<lambda>row. t_product_id (fst row) = 2) rows = [])"
  using delete_product_orphans [of sample_store 2]
  by (simp add: sample_store_eq int64_def)

text \<open>
  C5 as stated fails: before the laptop is deleted the history holds its initial-stock
  entry; afterwards the entry is still in the transactions table and the history is
  empty.
\<close>

theorem delete_product_orphans_counterexample:
  "map_sum id (map (\<lambda>row. (t_id (fst row), snd row)))
     (get_transaction_history laptop_store None) = Inr [(1, ''Laptop'')] \<and>
   fst (delete_product laptop_store 1) \<and>
   map t_id (transactions (snd (delete_product laptop_store 1))) = [1] \<and>
   get_transaction_history (snd (delete_product laptop_store 1)) None = Inr []"
  by (simp add: laptop_store_eq delete_product_def get_transaction_history_def truthy_def
        join_products_def order_by_date_desc_def int64_def)

text \<open>
  C10. \<^verbatim>\<open>get_transaction_history\<close> called with product id \<^verbatim>\<open>0\<close> returns what the
  call with no product id returns, and that is the whole joined history, not the
  transactions of a product 0: its rows are exactly the pairs of a transaction and the
  name of a product with that transaction's product id, the latest date first; and
  when no two products share an id, every transaction of a stored product occurs in it
  exactly as often as in the transactions table.
\<close>

theorem get_transaction_history_zero:
  "get_transaction_history s (Some 0) = get_transaction_history s None \<and>
   (\<exists>rows.
      get_transaction_history s (Some 0) = Inr rows \<and>
      set rows =
        {(t, p_name p) | t p.
           t \<in> set (transactions s) \<and> p \<in> set (products s) \<and> p_id p = t_product_id t} \<and>
      sorted (rev (map (\<lambda>row. t_date (fst row)) rows)) \<and>
      (distinct (map p_id (products s)) \<longrightarrow>
         mset (map fst rows) =
           mset (filter (\<lambda>t. t_product_id t \<in> p_id ` set (products s)) (transactions s))))"
proof -
  let ?rows = "order_by_date_desc (join_products s)"
  have both: "get_transaction_history s (Some 0) = Inr ?rows"
    "get_transaction_history s None = Inr ?rows"
    by (simp_all add: get_transaction_history_def truthy_def)
  have rows: "set ?rows =
        {(t, p_name p) | t p.
           t \<in> set (transactions s) \<and> p \<in> set (products s) \<and> p_id p = t_product_id t}"
    by (simp add: set_join_products)
  have order: "sorted (rev (map (\<lambda>row. t_date (fst row)) ?rows))"
    by (rule sorted_order_by_date_desc)
  have count: "mset (map fst ?rows) =
           mset (filter (\<lambda>t. t_product_id t \<in> p_id ` set (products s)) (transactions s))"
    if "distinct (map p_id (products s))"
  proof -
    have "mset (map fst ?rows) = mset (map fst (join_products s))"
      by simp
    with map_fst_join_products [OF that] show ?thesis
      by simp
  qed
  from both rows order count show ?thesis
    by simp
qed

text \<open>
  The theorem at the sample store: the history for product id 0 holds the entries of
  products 1 and 2.
\<close>

theorem get_transaction_history_zero_witness:
  "\<exists>rows. get_transaction_history sample_store (Some 0) = Inr rows \<and>
          mset (map (\<lambda>row. (t_id (fst row), t_product_id (fst row))) rows) = {#(1, 1), (2, 2)#}"
proof -
  from get_transaction_history_zero [of sample_store] obtain rows where
    rows: "get_transaction_history sample_store (Some 0) = Inr rows"
    and count: "distinct (map p_id (products sample_store)) \<longrightarrow>
         mset (map fst rows) =
           mset (filter (\<lambda>t. t_product_id t \<in> p_id ` set (products sample_store))
                   (transactions sample_store))"
    by blast
  from count have "mset (map fst rows) = mset (transactions sample_store)"
    by (simp add: sample_store_eq)
  then have "image_mset (\<lambda>t. (t_id t, t_product_id t)) (mset (map fst rows)) =
             image_mset (\<lambda>t. (t_id t, t_product_id t)) (mset (transactions sample_store))"
    by simp
  then have "mset (map (\<lambda>row. (t_id (fst row), t_product_id (fst row))) rows) = {#(1, 1), (2, 2)#}"
    by (simp add: sample_store_eq multiset.map_comp comp_def)
  with rows show ?thesis
    by blast
qed

section \<open>Low stock\<close>

text \<open>
  C9. \<^verbatim>\<open>get_low_stock_products\<close> returns a product row exactly when the row is in
  the products table and its quantity is at most its minimum stock; a row whose
  quantity equals its minimum stock is therefore returned.
\<close>

theorem get_low_stock_products_iff:
  "r \<in> set (get_low_stock_products s) \<longleftrightarrow>
     r \<in> set (products s) \<and> p_quantity r \<le> p_min_stock r"
  by (auto simp: get_low_stock_products_def)

end
